theory Spec2Isabelle
  imports Complex_Main
begin

section \<open>Numbers, absent values and runtime errors\<close>

text \<open>
  The screener \<^verbatim>\<open>dollar_investment_screener_web.py\<close> computes with Python and numpy
  floating-point numbers. Finite numbers are modelled as exact reals: rounding, overflow,
  underflow and signed zeros are outside the model. The divisors of the calculator are
  numpy numbers (results of \<^verbatim>\<open>.min()\<close> and \<^verbatim>\<open>.max()\<close>), so a zero divisor does not
  raise: the quotient is an infinity or NaN. A zero index midpoint makes only the
  percentage of line 69 infinite, which is then compared and printed: it is a value of
  the type \<open>py_float\<close> and the run goes on. A zero rate midpoint is also the divisor
  of line 82 and makes the gap ratio infinite; there, and where a reduction has no real
  result, the model stops with a value that carries the source line:
  \<^item> \<open>ZeroDivisionError l\<close>: the division on line \<open>l\<close> has a zero divisor;
  \<^item> \<open>NotANumber l\<close>: the pandas reduction on line \<open>l\<close> runs over an empty selection
    (pandas answers NaN there);
  \<^item> \<open>TypeError l\<close>: line \<open>l\<close> subscripts a tuple with a string key.
  A Python value that may be \<^verbatim>\<open>None\<close> is an \<open>option\<close>. A price history (a data frame
  with a \<^verbatim>\<open>Close\<close> column) is the list of its closing values, oldest first.
\<close>

datatype py_error = ZeroDivisionError nat | NotANumber nat | TypeError nat

text \<open>
  A numpy result that may be infinite, with numpy's division of reals, the product with
  the positive constant 100, and the comparison \<^verbatim>\<open>x < 0\<close> (false for NaN).
\<close>

datatype py_float = Finite real | PosInf | NegInf | NaN

definition np_div :: "real \<Rightarrow> real \<Rightarrow> py_float" where
  "np_div a b =
     (if b \<noteq> 0 then Finite (a / b)
      else if 0 < a then PosInf
      else if a < 0 then NegInf
      else NaN)"

fun times_100 :: "py_float \<Rightarrow> py_float" where
  "times_100 (Finite x) = Finite (x * 100)"
| "times_100 PosInf = PosInf"
| "times_100 NegInf = NegInf"
| "times_100 NaN = NaN"

fun below_zero :: "py_float \<Rightarrow> bool" where
  "below_zero (Finite x) = (x < 0)"
| "below_zero NegInf = True"
| "below_zero PosInf = False"
| "below_zero NaN = False"

definition py_div :: "nat \<Rightarrow> real \<Rightarrow> real \<Rightarrow> py_error + real" where
  "py_div line a b = (if b = 0 then Inl (ZeroDivisionError line) else Inr (a / b))"

text \<open>Truth value of \<^verbatim>\<open>if x:\<close> for a number that may be \<^verbatim>\<open>None\<close>.\<close>

definition truthy :: "real option \<Rightarrow> bool" where
  "truthy v = (case v of None \<Rightarrow> False | Some x \<Rightarrow> x \<noteq> 0)"

text \<open>
  \<^verbatim>\<open>DataFrame.tail(n)\<close>: no row for \<open>n = 0\<close>, the last \<open>n\<close> rows for \<open>n > 0\<close> (all of
  them when there are fewer), all but the first \<open>-n\<close> rows for \<open>n < 0\<close>.
\<close>

definition tail :: "int \<Rightarrow> 'a list \<Rightarrow> 'a list" where
  "tail n xs =
     (if n = 0 then []
      else if 0 < n then drop (length xs - nat n) xs
      else drop (nat (- n)) xs)"

text \<open>\<^verbatim>\<open>Series.min()\<close> and \<^verbatim>\<open>Series.max()\<close> on a column.\<close>

fun close_min :: "nat \<Rightarrow> real list \<Rightarrow> py_error + real" where
  "close_min line [] = Inl (NotANumber line)"
| "close_min line (x # xs) = Inr (fold min xs x)"

fun close_max :: "nat \<Rightarrow> real list \<Rightarrow> py_error + real" where
  "close_max line [] = Inl (NotANumber line)"
| "close_max line (x # xs) = Inr (fold max xs x)"

text \<open>
  The data model's price series: every closing value is positive. (The time stamps of
  the data frame play no part in the calculations and are not modelled.)
\<close>

definition price_series :: "real list \<Rightarrow> bool" where
  "price_series xs = list_all (\<lambda>v. 0 < v) xs"

section \<open>The gap and fair-value calculator\<close>

record window_stats =
  current :: "real option"
  mid :: real
  min_close :: real
  max_close :: real

record gap_data =
  rate_vs_mid :: "real option"
  dxy_vs_mid :: "py_float option"
  current_gap_ratio :: "real option"
  mid_gap_ratio :: "real option"
  appropriate_rate :: "real option"
  rate_stats :: window_stats
  dxy_stats :: "window_stats option"

text \<open>
  What \<^verbatim>\<open>calculate_dollar_gap_ratio\<close> can hand to its caller: the dictionary, or the
  tuple \<^verbatim>\<open>(None, None, None, None, None)\<close> of line 48. \<open>PyNone\<close> is the plain
  \<^verbatim>\<open>None\<close> that \<^verbatim>\<open>get_investment_recommendation\<close> tests for.
\<close>

datatype py_gap = PyNone | NoneTuple5 | GapDict gap_data

text \<open>Lines 51 to 57: minimum, maximum and midpoint of the window, and the rate against it.\<close>

definition rate_statistics ::
  "real \<Rightarrow> real list \<Rightarrow> int \<Rightarrow> py_error + (real \<times> real \<times> real \<times> real)" where
  "rate_statistics current_rate rate_hist period_days =
     (let recent_rate = tail period_days rate_hist in
      case close_min 52 recent_rate of Inl e \<Rightarrow> Inl e | Inr rate_min \<Rightarrow>
      case close_max 53 recent_rate of Inl e \<Rightarrow> Inl e | Inr rate_max \<Rightarrow>
      let rate_mid = (rate_min + rate_max) / 2 in
      case py_div 57 (current_rate - rate_mid) rate_mid of Inl e \<Rightarrow> Inl e | Inr q \<Rightarrow>
      Inr (rate_min, rate_max, rate_mid, q * 100))"

text \<open>
  Lines 60 to 69 and 99 to 104: the same statistics for the index, when its history is
  long enough. The result is \<open>(dxy_mid, dxy_vs_mid, dxy_stats)\<close>. A zero midpoint makes
  the percentage of line 69 infinite (the current value is then not zero); the run goes
  on.
\<close>

definition dxy_statistics ::
  "real option \<Rightarrow> real list option \<Rightarrow> int \<Rightarrow>
     py_error + (real option \<times> py_float option \<times> window_stats option)" where
  "dxy_statistics current_dxy dxy_hist period_days =
     (case dxy_hist of
        None \<Rightarrow> Inr (None, None, None)
      | Some dh \<Rightarrow>
          if int (length dh) \<ge> period_days then
            (let recent_dxy = tail period_days dh in
             case close_min 64 recent_dxy of Inl e \<Rightarrow> Inl e | Inr dxy_min \<Rightarrow>
             case close_max 65 recent_dxy of Inl e \<Rightarrow> Inl e | Inr dxy_max \<Rightarrow>
             let dxy_mid = (dxy_min + dxy_max) / 2;
                 stats = \<lparr>current = current_dxy, mid = dxy_mid,
                          min_close = dxy_min, max_close = dxy_max\<rparr> in
             if truthy current_dxy then
               Inr (Some dxy_mid,
                    Some (times_100 (np_div (the current_dxy - dxy_mid) dxy_mid)),
                    Some stats)
             else Inr (Some dxy_mid, None, Some stats))
          else Inr (None, None, None))"

text \<open>
  Lines 72 to 85: the gap ratios and the fair rate. The result is
  \<open>(current_gap_ratio, mid_gap_ratio, appropriate_rate)\<close>.
\<close>

definition gap_ratios ::
  "real \<Rightarrow> real option \<Rightarrow> real option \<Rightarrow> real \<Rightarrow>
     py_error + (real option \<times> real option \<times> real option)" where
  "gap_ratios current_rate current_dxy dxy_mid rate_mid =
     (if truthy current_dxy \<and> current_rate > 0 then
        (case py_div 78 (the current_dxy) current_rate of Inl e \<Rightarrow> Inl e | Inr q \<Rightarrow>
         let current_gap_ratio = q * 100 in
         if truthy dxy_mid then
           (case py_div 82 (the dxy_mid) rate_mid of Inl e \<Rightarrow> Inl e | Inr qm \<Rightarrow>
            let mid_gap_ratio = qm * 100 in
            case py_div 85 (the current_dxy) mid_gap_ratio of Inl e \<Rightarrow> Inl e | Inr qa \<Rightarrow>
            Inr (Some current_gap_ratio, Some mid_gap_ratio, Some (qa * 100)))
         else Inr (Some current_gap_ratio, None, None))
      else Inr (None, None, None))"

definition calculate_dollar_gap_ratio ::
  "real \<Rightarrow> real list option \<Rightarrow> real option \<Rightarrow> real list option \<Rightarrow> int \<Rightarrow>
     py_error + py_gap" where
  "calculate_dollar_gap_ratio current_rate rate_hist current_dxy dxy_hist period_days =
     (case rate_hist of
        None \<Rightarrow> Inr NoneTuple5
      | Some rh \<Rightarrow>
          if int (length rh) < period_days then Inr NoneTuple5
          else
            (case rate_statistics current_rate rh period_days of
               Inl e \<Rightarrow> Inl e
             | Inr (rate_min, rate_max, rate_mid, rate_vs_mid_v) \<Rightarrow>
            (case dxy_statistics current_dxy dxy_hist period_days of
               Inl e \<Rightarrow> Inl e
             | Inr (dxy_mid, dxy_vs_mid_v, dxy_stats_v) \<Rightarrow>
            (case gap_ratios current_rate current_dxy dxy_mid rate_mid of
               Inl e \<Rightarrow> Inl e
             | Inr (current_gap_ratio_v, mid_gap_ratio_v, appropriate_rate_v) \<Rightarrow>
               Inr (GapDict
                 \<lparr>rate_vs_mid = Some rate_vs_mid_v,
                  dxy_vs_mid = dxy_vs_mid_v,
                  current_gap_ratio = current_gap_ratio_v,
                  mid_gap_ratio = mid_gap_ratio_v,
                  appropriate_rate = appropriate_rate_v,
                  rate_stats = \<lparr>current = Some current_rate, mid = rate_mid,
                                 min_close = rate_min, max_close = rate_max\<rparr>,
                  dxy_stats = dxy_stats_v\<rparr>)))))"

section \<open>The recommendation engine\<close>

text \<open>
  The six decision labels of lines 135 and 181 to 198, in the order of the source, and
  the explanation sentence, which is a template chosen by the label and filled with
  the number of conditions met. An evidence line records the number of the condition,
  whether it passed, and the margin it prints (none for a passed condition 1 or 2).
\<close>

datatype decision =
  Insufficient_data | Buy_recommended | Buy_considered | Hold_and_watch
  | Buy_with_caution | Buy_not_recommended

datatype explanation = Explain_insufficient | Explain decision nat

datatype evidence = Evidence (condition_no: nat) (satisfied: bool) (margin: "py_float option")

record cond_state =
  recommendations :: "evidence list"
  conditions_met :: nat
  total_conditions :: nat

definition passed :: "evidence \<Rightarrow> cond_state \<Rightarrow> cond_state" where
  "passed ev s =
     s\<lparr>total_conditions := total_conditions s + 1,
       recommendations := recommendations s @ [ev],
       conditions_met := conditions_met s + 1\<rparr>"

definition failed :: "evidence \<Rightarrow> cond_state \<Rightarrow> cond_state" where
  "failed ev s =
     s\<lparr>total_conditions := total_conditions s + 1,
       recommendations := recommendations s @ [ev]\<rparr>"

text \<open>Lines 142 to 148.\<close>

definition condition1 :: "gap_data \<Rightarrow> cond_state \<Rightarrow> cond_state" where
  "condition1 g s =
     (case rate_vs_mid g of
        None \<Rightarrow> s
      | Some v \<Rightarrow>
          if v < 0 then passed (Evidence 1 True None) s
          else failed (Evidence 1 False (Some (Finite v))) s)"

text \<open>Lines 151 to 157.\<close>

definition condition2 :: "gap_data \<Rightarrow> cond_state \<Rightarrow> cond_state" where
  "condition2 g s =
     (case dxy_vs_mid g of
        None \<Rightarrow> s
      | Some v \<Rightarrow>
          if below_zero v then passed (Evidence 2 True None) s
          else failed (Evidence 2 False (Some v)) s)"

text \<open>Lines 160 to 167.\<close>

definition condition3 :: "gap_data \<Rightarrow> cond_state \<Rightarrow> cond_state" where
  "condition3 g s =
     (case (current_gap_ratio g, mid_gap_ratio g) of
        (Some c, Some m) \<Rightarrow>
          (let gap_diff = c - m in
           if gap_diff > 0 then passed (Evidence 3 True (Some (Finite gap_diff))) s
           else failed (Evidence 3 False (Some (Finite gap_diff))) s)
      | _ \<Rightarrow> s)"

text \<open>Lines 170 to 178; the percentage of line 173 divides by the fair rate.\<close>

definition condition4 :: "gap_data \<Rightarrow> cond_state \<Rightarrow> py_error + cond_state" where
  "condition4 g s =
     (case (appropriate_rate g, current (rate_stats g)) of
        (Some a, Some c) \<Rightarrow>
          (let rate_diff = c - a in
           case py_div 173 rate_diff a of Inl e \<Rightarrow> Inl e | Inr q \<Rightarrow>
           let rate_diff_pct = q * 100 in
           if rate_diff < 0 then Inr (passed (Evidence 4 True (Some (Finite rate_diff_pct))) s)
           else Inr (failed (Evidence 4 False (Some (Finite rate_diff_pct))) s))
      | _ \<Rightarrow> Inr s)"

definition evaluate_conditions :: "gap_data \<Rightarrow> py_error + cond_state" where
  "evaluate_conditions g =
     condition4 g (condition3 g (condition2 g (condition1 g
       \<lparr>recommendations = [], conditions_met = 0, total_conditions = 0\<rparr>)))"

text \<open>Lines 181 to 198.\<close>

definition final_decision :: "nat \<Rightarrow> nat \<Rightarrow> decision" where
  "final_decision met tot =
     (if tot = 0 then Insufficient_data
      else if met = tot then Buy_recommended
      else if real met \<ge> real tot * 0.75 then Buy_considered
      else if real met \<ge> real tot * 0.5 then Hold_and_watch
      else if real met \<ge> real tot * 0.25 then Buy_with_caution
      else Buy_not_recommended)"

definition final_explanation :: "nat \<Rightarrow> nat \<Rightarrow> explanation" where
  "final_explanation met tot =
     (if tot = 0 then Explain_insufficient
      else Explain (final_decision met tot) met)"

text \<open>
  The function returns the tuple \<open>(decision, explanation, recommendations,
  conditions_met)\<close>. Its counter \<open>total_conditions\<close> is a local variable.
\<close>

definition get_investment_recommendation ::
  "py_gap \<Rightarrow> py_error + (decision \<times> explanation \<times> evidence list \<times> nat)" where
  "get_investment_recommendation gap =
     (case gap of
        PyNone \<Rightarrow> Inr (Insufficient_data, Explain_insufficient, [], 0)
      | NoneTuple5 \<Rightarrow> Inl (TypeError 142)
      | GapDict g \<Rightarrow>
          (case evaluate_conditions g of
             Inl e \<Rightarrow> Inl e
           | Inr s \<Rightarrow>
               Inr (final_decision (conditions_met s) (total_conditions s),
                    final_explanation (conditions_met s) (total_conditions s),
                    recommendations s, conditions_met s)))"

section \<open>The investment sizing calculator\<close>

record investment_details =
  investment_amount :: real
  current_rate :: real
  dollar_amount :: real
  fee :: real
  net_investment :: real
  net_dollar :: real
  fee_rate :: real

definition calculate_investment_details ::
  "real \<Rightarrow> real option \<Rightarrow> py_error + investment_details option" where
  "calculate_investment_details amount rate =
     (case rate of
        None \<Rightarrow> Inr None
      | Some r \<Rightarrow>
          (case py_div 209 amount r of Inl e \<Rightarrow> Inl e | Inr dollars \<Rightarrow>
           let fee_rate_v = 0.002;
               fee_v = amount * fee_rate_v;
               net = amount - fee_v in
           case py_div 215 net r of Inl e \<Rightarrow> Inl e | Inr net_dollars \<Rightarrow>
           Inr (Some \<lparr>investment_amount = amount, current_rate = r,
                      dollar_amount = dollars, fee = fee_v, net_investment = net,
                      net_dollar = net_dollars, fee_rate = fee_rate_v * 100\<rparr>)))"

text \<open>
  Lines 467 to 480, the scenario loop of the page: one row per percentage, holding the
  numbers that the page then prints. The percentages are Python integers.
\<close>

record scenario_row =
  change_pct :: int
  new_rate :: real
  new_dollar :: real
  profit_loss :: real

definition scenarios :: "int list" where
  "scenarios = [-5, -3, -1, 0, 1, 3, 5]"

fun scenario_loop ::
  "real \<Rightarrow> investment_details \<Rightarrow> int list \<Rightarrow> py_error + scenario_row list" where
  "scenario_loop rate d [] = Inr []"
| "scenario_loop rate d (p # ps) =
     (let nr = rate * (1 + real_of_int p / 100) in
      case py_div 472 (net_investment d) nr of
        Inl e \<Rightarrow> Inl e
      | Inr nd \<Rightarrow>
          (let pl = (nd - net_dollar d) * rate in
           case scenario_loop rate d ps of
             Inl e \<Rightarrow> Inl e
           | Inr rows \<Rightarrow>
               Inr (\<lparr>change_pct = p, new_rate = nr, new_dollar = nd, profit_loss = pl\<rparr>
                    # rows)))"

definition scenario_data :: "real \<Rightarrow> investment_details \<Rightarrow> py_error + scenario_row list" where
  "scenario_data rate d = scenario_loop rate d scenarios"

section \<open>Auxiliary facts about the pandas reductions and the window\<close>

lemma close_min_Min: "xs \<noteq> [] \<Longrightarrow> close_min l xs = Inr (Min (set xs))"
  by (cases xs) (simp_all add: Min.set_eq_fold [symmetric])

lemma close_max_Max: "xs \<noteq> [] \<Longrightarrow> close_max l xs = Inr (Max (set xs))"
  by (cases xs) (simp_all add: Max.set_eq_fold [symmetric])

lemma tail_pos: "0 < n \<Longrightarrow> tail n xs = drop (length xs - nat n) xs"
  by (simp add: tail_def)

lemma tail_nonempty: "0 < n \<Longrightarrow> xs \<noteq> [] \<Longrightarrow> tail n xs \<noteq> []"
  by (cases xs) (auto simp: tail_def)

lemma set_tail_subset: "set (tail n xs) \<subseteq> set xs"
  by (auto simp: tail_def dest: in_set_dropD)

lemma price_series_tail: "price_series xs \<Longrightarrow> price_series (tail n xs)"
  using set_tail_subset [of n xs] by (auto simp: price_series_def list_all_iff)

lemma price_series_Min: "price_series xs \<Longrightarrow> xs \<noteq> [] \<Longrightarrow> 0 < Min (set xs)"
  by (simp add: price_series_def list_all_iff)

lemma price_series_Max: "price_series xs \<Longrightarrow> xs \<noteq> [] \<Longrightarrow> 0 < Max (set xs)"
  by (metis List.finite_set Max_in list_all_iff price_series_def set_empty)

lemma set_drop_nth: "set (drop k xs) = {xs ! i | i. k \<le> i \<and> i < length xs}"
proof (intro set_eqI iffI)
  fix v assume "v \<in> set (drop k xs)"
  then obtain j where j: "j < length (drop k xs)" "v = drop k xs ! j"
    by (auto simp: in_set_conv_nth)
  then have "k \<le> k + j" "k + j < length xs" "v = xs ! (k + j)" by auto
  then show "v \<in> {xs ! i | i. k \<le> i \<and> i < length xs}" by blast
next
  fix v assume "v \<in> {xs ! i | i. k \<le> i \<and> i < length xs}"
  then obtain i where i: "k \<le> i" "i < length xs" "v = xs ! i" by blast
  then have "i - k < length (drop k xs)" "drop k xs ! (i - k) = v" by auto
  then show "v \<in> set (drop k xs)" by (metis nth_mem)
qed


lemma rate_statistics_eq:
  assumes "tail n xs \<noteq> []"
  shows "rate_statistics c xs n =
    (if (Min (set (tail n xs)) + Max (set (tail n xs))) / 2 = 0 then Inl (ZeroDivisionError 57)
     else Inr (Min (set (tail n xs)), Max (set (tail n xs)),
               (Min (set (tail n xs)) + Max (set (tail n xs))) / 2,
               (c - (Min (set (tail n xs)) + Max (set (tail n xs))) / 2)
                 / ((Min (set (tail n xs)) + Max (set (tail n xs))) / 2) * 100))"
  unfolding rate_statistics_def Let_def close_min_Min [OF assms] close_max_Max [OF assms]
    py_div_def
  by (simp only: sum.case if_distrib [of "case_sum _ _"] split: if_split)

lemma rate_statistics_InrD:
  assumes "rate_statistics c xs n = Inr (lo, hi, m, v)"
  shows "tail n xs \<noteq> [] \<and> lo = Min (set (tail n xs)) \<and> hi = Max (set (tail n xs)) \<and>
         m = (lo + hi) / 2 \<and> m \<noteq> 0 \<and> v = (c - m) / m * 100"
proof (cases "tail n xs = []")
  case True
  with assms show ?thesis by (simp add: rate_statistics_def)
next
  case False
  show ?thesis
  proof (cases "(Min (set (tail n xs)) + Max (set (tail n xs))) / 2 = 0")
    case True
    with assms rate_statistics_eq [OF False, of c] show ?thesis by (simp only: if_True) simp
  next
    case nz: False
    have "rate_statistics c xs n = Inr (Min (set (tail n xs)), Max (set (tail n xs)),
               (Min (set (tail n xs)) + Max (set (tail n xs))) / 2,
               (c - (Min (set (tail n xs)) + Max (set (tail n xs))) / 2)
                 / ((Min (set (tail n xs)) + Max (set (tail n xs))) / 2) * 100)"
      unfolding rate_statistics_eq [OF False, of c] using nz by (simp only: if_False)
    from trans [OF assms [symmetric] this]
    have "Inr (lo, hi, m, v) = (Inr (Min (set (tail n xs)), Max (set (tail n xs)),
               (Min (set (tail n xs)) + Max (set (tail n xs))) / 2,
               (c - (Min (set (tail n xs)) + Max (set (tail n xs))) / 2)
                 / ((Min (set (tail n xs)) + Max (set (tail n xs))) / 2) * 100)
            :: py_error + (real \<times> real \<times> real \<times> real))" .
    then have "lo = Min (set (tail n xs))" "hi = Max (set (tail n xs))"
      "m = (Min (set (tail n xs)) + Max (set (tail n xs))) / 2"
      "v = (c - (Min (set (tail n xs)) + Max (set (tail n xs))) / 2)
                 / ((Min (set (tail n xs)) + Max (set (tail n xs))) / 2) * 100"
      by (simp_all only: sum.inject prod.inject)
    with nz False show ?thesis by (simp only:) simp
  qed
qed

lemma rate_statistics_Inr:
  assumes "tail n xs \<noteq> []" and "Min (set (tail n xs)) + Max (set (tail n xs)) \<noteq> 0"
  shows "\<exists>lo hi m v. rate_statistics c xs n = Inr (lo, hi, m, v)"
proof -
  from assms(2) have "(Min (set (tail n xs)) + Max (set (tail n xs))) / 2 \<noteq> 0" by simp
  then show ?thesis
    unfolding rate_statistics_eq [OF assms(1)] by (simp only: if_False) blast
qed

lemma dxy_statistics_InrD:
  assumes "dxy_statistics d dh n = Inr (dm, dv, ds)"
  shows "(dm = None) = (case dh of None \<Rightarrow> True | Some ys \<Rightarrow> int (length ys) < n)"
    and "(ds = None) = (dm = None)"
    and "(dv = None) = (dm = None \<or> \<not> truthy d)"
    and "dm = Some y \<Longrightarrow> \<exists>st. ds = Some st \<and> mid st = y"
  using assms
  by (auto simp: dxy_statistics_def Let_def
      split: option.splits if_splits sum.splits)

lemma gap_ratios_InrD:
  assumes "gap_ratios c d dm rm = Inr (cg, mg, ar)"
  shows "(cg = None) = (\<not> (truthy d \<and> 0 < c))"
    and "(mg = None) = (\<not> (truthy d \<and> 0 < c \<and> truthy dm))"
    and "(ar = None) = (mg = None)"
    and "cg = Some x \<Longrightarrow> x = the d / c * 100"
    and "mg = Some y \<Longrightarrow> y \<noteq> 0 \<and> y = the dm / rm * 100 \<and> ar = Some (the d / y * 100)"
  using assms
  by (auto simp: gap_ratios_def Let_def py_div_def
      split: option.splits if_splits sum.splits)

lemma gap_ratios_line_85: "rm \<noteq> 0 \<Longrightarrow> gap_ratios c d dm rm \<noteq> Inl (ZeroDivisionError 85)"
  by (auto simp: gap_ratios_def Let_def py_div_def truthy_def
      split: option.splits if_splits sum.splits)

lemma calculate_GapDictD:
  assumes "calculate_dollar_gap_ratio c rh d dh n = Inr (GapDict g)"
  obtains xs lo hi m v dm dv ds cg mg ar where
    "rh = Some xs" "\<not> int (length xs) < n"
    "rate_statistics c xs n = Inr (lo, hi, m, v)"
    "dxy_statistics d dh n = Inr (dm, dv, ds)"
    "gap_ratios c d dm m = Inr (cg, mg, ar)"
    "g = \<lparr>rate_vs_mid = Some v, dxy_vs_mid = dv, current_gap_ratio = cg,
          mid_gap_ratio = mg, appropriate_rate = ar,
          rate_stats = \<lparr>current = Some c, mid = m, min_close = lo, max_close = hi\<rparr>,
          dxy_stats = ds\<rparr>"
  using assms
  by (auto simp: calculate_dollar_gap_ratio_def
      split: option.splits if_splits sum.splits prod.splits)

section \<open>When the calculator returns, and two worked examples\<close>

lemma gap_ratios_Inr:
  assumes "rm \<noteq> 0"
  shows "\<exists>cg mg ar. gap_ratios c d dm rm = Inr (cg, mg, ar)"
  using assms
  by (auto simp: gap_ratios_def Let_def py_div_def truthy_def split: option.splits)

lemma dxy_statistics_Inr:
  assumes "0 < n"
  shows "\<exists>dm dv ds. dxy_statistics d dh n = Inr (dm, dv, ds)"
proof (cases dh)
  case None
  then show ?thesis by (simp add: dxy_statistics_def)
next
  case (Some ys)
  show ?thesis
  proof (cases "n \<le> int (length ys)")
    case False
    with Some show ?thesis by (simp add: dxy_statistics_def)
  next
    case True
    with assms have "ys \<noteq> []" by auto
    then have ne: "tail n ys \<noteq> []" using assms by (rule tail_nonempty [rotated])
    from Some True show ?thesis
      by (simp add: dxy_statistics_def Let_def close_min_Min [OF ne] close_max_Max [OF ne])
  qed
qed

lemma rate_window_positive:
  assumes "0 < n" "n \<le> int (length xs)" "price_series xs"
  shows "tail n xs \<noteq> []" "0 < Min (set (tail n xs))" "0 < Max (set (tail n xs))"
proof -
  from assms(1,2) have "xs \<noteq> []" by auto
  then show ne: "tail n xs \<noteq> []" using assms(1) by (rule tail_nonempty [rotated])
  have ps: "price_series (tail n xs)" using assms(3) by (rule price_series_tail)
  show "0 < Min (set (tail n xs))" using price_series_Min [OF ps ne] .
  show "0 < Max (set (tail n xs))" using price_series_Max [OF ps ne] .
qed

lemma calculate_returns_if:
  assumes "0 < n" "n \<le> int (length xs)" "price_series xs"
    and "dxy_statistics d dh n = Inr (dm, dv, ds)"
  shows "\<exists>g. calculate_dollar_gap_ratio c (Some xs) d dh n = Inr (GapDict g)"
proof -
  note w = rate_window_positive [OF assms(1-3)]
  from w(2,3) have "Min (set (tail n xs)) + Max (set (tail n xs)) \<noteq> 0" by simp
  from rate_statistics_Inr [OF w(1) this, of c]
  obtain lo hi m v where r: "rate_statistics c xs n = Inr (lo, hi, m, v)" by blast
  from rate_statistics_InrD [OF r] have "m \<noteq> 0" by simp
  from gap_ratios_Inr [OF this, of c d dm]
  obtain cg mg ar where gr: "gap_ratios c d dm m = Inr (cg, mg, ar)" by blast
  from assms(2) r assms(4) gr show ?thesis
    by (simp add: calculate_dollar_gap_ratio_def)
qed

lemma calculate_returns:
  assumes "0 < n" "n \<le> int (length xs)" "price_series xs"
  shows "\<exists>g. calculate_dollar_gap_ratio c (Some xs) d dh n = Inr (GapDict g)"
proof -
  from dxy_statistics_Inr [OF assms(1), of d dh]
  obtain dm dv ds where "dxy_statistics d dh n = Inr (dm, dv, ds)" by blast
  from calculate_returns_if [OF assms this] show ?thesis .
qed

lemma dxy_statistics_short:
  assumes "case dh of None \<Rightarrow> True | Some ys \<Rightarrow> int (length ys) < n"
  shows "dxy_statistics d dh n = Inr (None, None, None)"
  using assms by (simp add: dxy_statistics_def split: option.splits)

lemma evaluate_conditions_counters:
  assumes "evaluate_conditions g = Inr s"
  shows "total_conditions s = length (recommendations s)"
    and "conditions_met s = length (filter satisfied (recommendations s))"
    and "total_conditions s =
          (if rate_vs_mid g \<noteq> None then 1 else 0)
        + (if dxy_vs_mid g \<noteq> None then 1 else 0)
        + (if current_gap_ratio g \<noteq> None \<and> mid_gap_ratio g \<noteq> None then 1 else 0)
        + (if appropriate_rate g \<noteq> None \<and> current (rate_stats g) \<noteq> None then 1 else 0)"
  using assms
  by (auto simp: evaluate_conditions_def condition1_def condition2_def condition3_def
      condition4_def passed_def failed_def py_div_def Let_def
      split: option.splits if_splits)

lemma example_analysis:
  "calculate_dollar_gap_ratio 1200 (Some [1250, 1350]) (Some 106) (Some [90, 100, 110]) 2
   = Inr (GapDict
       \<lparr>rate_vs_mid = Some (- (100 / 13)), dxy_vs_mid = Some (Finite (20 / 21)),
        current_gap_ratio = Some (53 / 6), mid_gap_ratio = Some (105 / 13),
        appropriate_rate = Some (27560 / 21),
        rate_stats = \<lparr>current = Some 1200, mid = 1300, min_close = 1250, max_close = 1350\<rparr>,
        dxy_stats = Some \<lparr>current = Some 106, mid = 105, min_close = 100, max_close = 110\<rparr>\<rparr>)"
  by (simp add: calculate_dollar_gap_ratio_def rate_statistics_def dxy_statistics_def
      gap_ratios_def tail_def py_div_def truthy_def np_div_def)

lemma example_recommendation:
  "get_investment_recommendation (GapDict
       \<lparr>rate_vs_mid = Some (- (100 / 13)), dxy_vs_mid = Some (Finite (20 / 21)),
        current_gap_ratio = Some (53 / 6), mid_gap_ratio = Some (105 / 13),
        appropriate_rate = Some (27560 / 21),
        rate_stats = \<lparr>current = Some 1200, mid = 1300, min_close = 1250, max_close = 1350\<rparr>,
        dxy_stats = Some \<lparr>current = Some 106, mid = 105, min_close = 100, max_close = 110\<rparr>\<rparr>)
   = Inr (Buy_considered, Explain Buy_considered 3,
          [Evidence 1 True None, Evidence 2 False (Some (Finite (20 / 21))),
           Evidence 3 True (Some (Finite (59 / 78))), Evidence 4 True (Some (Finite (- (5900 / 689))))], 3)"
  by (simp add: get_investment_recommendation_def evaluate_conditions_def condition1_def
      condition2_def condition3_def condition4_def passed_def failed_def py_div_def
      final_decision_def final_explanation_def)

lemma recommendation_rate_only:
  assumes "rate_vs_mid g = Some v" and "dxy_vs_mid g = None"
    and "current_gap_ratio g = None" and "appropriate_rate g = None"
  shows "\<exists>dec expl ev met.
           get_investment_recommendation (GapDict g) = Inr (dec, expl, [ev], met)
           \<and> condition_no ev = 1"
  using assms
  by (simp add: get_investment_recommendation_def evaluate_conditions_def condition1_def
      condition2_def condition3_def condition4_def passed_def failed_def)

section \<open>Facts about the sizing calculator and the scenario loop\<close>

lemma calculate_investment_details_Some:
  assumes "r \<noteq> 0"
  shows "calculate_investment_details a (Some r) =
    Inr (Some \<lparr>investment_amount = a, current_rate = r, dollar_amount = a / r,
               fee = a * 0.002, net_investment = a - a * 0.002,
               net_dollar = (a - a * 0.002) / r, fee_rate = 0.002 * 100\<rparr>)"
  unfolding calculate_investment_details_def Let_def py_div_def
  using assms by (simp only: option.case if_False sum.case)

lemma scenario_loop_rows:
  assumes "0 < r" and "list_all (\<lambda>p. - 100 < p) ps"
  shows "scenario_loop r det ps =
    Inr (map (\<lambda>p. \<lparr>change_pct = p,
                    new_rate = r * (1 + real_of_int p / 100),
                    new_dollar = net_investment det / (r * (1 + real_of_int p / 100)),
                    profit_loss = (net_investment det / (r * (1 + real_of_int p / 100))
                                    - net_dollar det) * r\<rparr>) ps)"
  using assms(2)
proof (induction ps)
  case Nil
  show ?case by simp
next
  case (Cons p ps)
  from Cons.prems have p: "- 100 < p" and ps: "list_all (\<lambda>p. - 100 < p) ps" by simp_all
  from p have "- 100 < real_of_int p" by linarith
  then have "1 + real_of_int p / 100 \<noteq> 0" by simp
  with assms(1) have nz: "r * (1 + real_of_int p / 100) \<noteq> 0" by simp
  show ?case
    unfolding scenario_loop.simps Let_def py_div_def Cons.IH [OF ps]
    using nz by (simp only: if_False sum.case list.map)
qed

lemma calculate_short_history:
  "int (length rh) < n \<Longrightarrow> calculate_dollar_gap_ratio c (Some rh) d dh n = Inr NoneTuple5"
  by (simp add: calculate_dollar_gap_ratio_def)

section \<open>The claims\<close>

text \<open>
  C1. When the rate history has fewer rows than the window, the calculator is meant to
  return an absent analysis and the recommendation engine to answer it with the fixed
  insufficient-data recommendation. Line 48 returns the tuple of five \<^verbatim>\<open>None\<close>s instead
  of \<^verbatim>\<open>None\<close>: the test \<^verbatim>\<open>gap_data is None\<close> of line 134 is false for it and line 142
  subscripts the tuple with a string, which raises. Only for the plain \<^verbatim>\<open>None\<close> does the
  engine return the insufficient-data recommendation with no evidence and no condition
  met. Here: one observation, window 252.
\<close>

theorem short_history_recommendation_raises:
  "calculate_dollar_gap_ratio 1300 (Some [1300]) None None 252 = Inr NoneTuple5
   \<and> get_investment_recommendation NoneTuple5 = Inl (TypeError 142)
   \<and> get_investment_recommendation PyNone
       = Inr (Insufficient_data, Explain_insufficient, [], 0)"
  by (simp add: calculate_dollar_gap_ratio_def get_investment_recommendation_def)

text \<open>
  C2. The decision label is a function of the two counters alone, read in the order of
  lines 181 to 198: no condition evaluated gives the insufficient-data label; all met
  gives the buy recommendation; then at least three quarters, at least half, at least a
  quarter of the evaluated conditions; otherwise the label that advises against buying.
  The counter of evaluated conditions is the local \<open>total_conditions\<close>; it equals the
  length of the returned evidence list. With three conditions met out of four the label
  is the second one (buy to be considered).
\<close>

theorem decision_from_counters:
  assumes "get_investment_recommendation gap = Inr (dec, expl, recs, met)"
  shows "\<exists>tot. (case gap of
                  GapDict g \<Rightarrow> (\<exists>s. evaluate_conditions g = Inr s
                                  \<and> met = conditions_met s \<and> tot = total_conditions s)
                | _ \<Rightarrow> met = 0 \<and> tot = 0)
          \<and> tot = length recs
          \<and> dec = (if tot = 0 then Insufficient_data
                   else if met = tot then Buy_recommended
                   else if real met \<ge> 0.75 * real tot then Buy_considered
                   else if real met \<ge> 0.5 * real tot then Hold_and_watch
                   else if real met \<ge> 0.25 * real tot then Buy_with_caution
                   else Buy_not_recommended)"
proof (cases gap)
  case PyNone
  with assms show ?thesis by (simp add: get_investment_recommendation_def)
next
  case NoneTuple5
  with assms show ?thesis by (simp add: get_investment_recommendation_def)
next
  case (GapDict g)
  with assms obtain s where s: "evaluate_conditions g = Inr s"
    and r: "recs = recommendations s" "met = conditions_met s"
      "dec = final_decision (conditions_met s) (total_conditions s)"
    by (auto simp: get_investment_recommendation_def split: sum.splits)
  have "total_conditions s = length recs"
    using evaluate_conditions_counters(1) [OF s] r by simp
  with GapDict s r show ?thesis
    by (simp add: final_decision_def mult.commute)
qed

theorem decision_from_counters_witness:
  "get_investment_recommendation (GapDict
       \<lparr>rate_vs_mid = Some (- (100 / 13)), dxy_vs_mid = Some (Finite (20 / 21)),
        current_gap_ratio = Some (53 / 6), mid_gap_ratio = Some (105 / 13),
        appropriate_rate = Some (27560 / 21),
        rate_stats = \<lparr>current = Some 1200, mid = 1300, min_close = 1250, max_close = 1350\<rparr>,
        dxy_stats = Some \<lparr>current = Some 106, mid = 105, min_close = 100, max_close = 110\<rparr>\<rparr>)
   = Inr (Buy_considered, Explain Buy_considered 3,
          [Evidence 1 True None, Evidence 2 False (Some (Finite (20 / 21))),
           Evidence 3 True (Some (Finite (59 / 78))), Evidence 4 True (Some (Finite (- (5900 / 689))))], 3)
   \<and> Buy_considered =
       (if (4::nat) = 0 then Insufficient_data
        else if (3::nat) = 4 then Buy_recommended
        else if real 3 \<ge> 0.75 * real 4 then Buy_considered
        else if real 3 \<ge> 0.5 * real 4 then Hold_and_watch
        else if real 3 \<ge> 0.25 * real 4 then Buy_with_caution
        else Buy_not_recommended)"
proof -
  note e = example_recommendation
  from decision_from_counters [OF e]
  obtain tot where "tot = length [Evidence 1 True None, Evidence 2 False (Some (Finite (20 / 21))),
           Evidence 3 True (Some (Finite (59 / 78))), Evidence 4 True (Some (Finite (- (5900 / 689))))]"
    and "Buy_considered = (if tot = 0 then Insufficient_data
                   else if 3 = tot then Buy_recommended
                   else if real 3 \<ge> 0.75 * real tot then Buy_considered
                   else if real 3 \<ge> 0.5 * real tot then Hold_and_watch
                   else if real 3 \<ge> 0.25 * real tot then Buy_with_caution
                   else Buy_not_recommended)"
    by blast
  then show ?thesis using e by simp
qed

text \<open>
  C3. The fair rate is computed as the current index over the window's mid gap ratio,
  times 100, and only where that ratio is defined and not zero; without the ratio there
  is no fair rate. No run reaches the division of line 85 with a zero divisor: the
  ratio is the quotient of a non-zero index midpoint (tested on line 81) and a non-zero
  rate midpoint (line 57 divided by it before). In exact arithmetic; a quotient that
  underflows to zero in floating point is outside the model.
\<close>

theorem fair_value_division_guarded:
  "calculate_dollar_gap_ratio c rh d dh n \<noteq> Inl (ZeroDivisionError 85)
   \<and> (\<forall>g. calculate_dollar_gap_ratio c rh d dh n = Inr (GapDict g) \<longrightarrow>
        (case mid_gap_ratio g of
           None \<Rightarrow> appropriate_rate g = None
         | Some m \<Rightarrow> m \<noteq> 0 \<and>
             (\<exists>dv. d = Some dv \<and> appropriate_rate g = Some (dv / m * 100))))"
proof (intro conjI allI impI)
  show "calculate_dollar_gap_ratio c rh d dh n \<noteq> Inl (ZeroDivisionError 85)"
  proof
    assume a: "calculate_dollar_gap_ratio c rh d dh n = Inl (ZeroDivisionError 85)"
    then obtain xs where xs: "rh = Some xs" "\<not> int (length xs) < n"
      by (auto simp: calculate_dollar_gap_ratio_def split: option.splits if_splits)
    show False
    proof (cases "rate_statistics c xs n")
      case (Inl e)
      with a xs have "e = ZeroDivisionError 85" by (simp add: calculate_dollar_gap_ratio_def)
      with Inl show False
        by (auto simp: rate_statistics_def Let_def py_div_def
            elim!: close_min.elims close_max.elims split: sum.splits if_splits)
    next
      case (Inr r)
      obtain lo hi m v where r: "r = (lo, hi, m, v)" by (cases r)
      from rate_statistics_InrD [OF Inr [unfolded r]] have m: "m \<noteq> 0" by simp
      show False
      proof (cases "dxy_statistics d dh n")
        case dl: (Inl e)
        with a xs Inr r have "e = ZeroDivisionError 85"
          by (simp add: calculate_dollar_gap_ratio_def)
        with dl show False
          by (auto simp: dxy_statistics_def Let_def py_div_def
            elim!: close_min.elims close_max.elims split: option.splits sum.splits if_splits)
      next
        case dr: (Inr t)
        obtain dm dv ds where t: "t = (dm, dv, ds)" by (cases t)
        from a xs Inr r dr t have "gap_ratios c d dm m = Inl (ZeroDivisionError 85)"
          by (simp add: calculate_dollar_gap_ratio_def split: sum.splits prod.splits)
        with gap_ratios_line_85 [OF m] show False by blast
      qed
    qed
  qed
next
  fix g assume "calculate_dollar_gap_ratio c rh d dh n = Inr (GapDict g)"
  then obtain xs lo hi m v dm dv ds cg mg ar where
    gr: "gap_ratios c d dm m = Inr (cg, mg, ar)"
    and g: "g = \<lparr>rate_vs_mid = Some v, dxy_vs_mid = dv, current_gap_ratio = cg,
          mid_gap_ratio = mg, appropriate_rate = ar,
          rate_stats = \<lparr>current = Some c, mid = m, min_close = lo, max_close = hi\<rparr>,
          dxy_stats = ds\<rparr>"
    by (rule calculate_GapDictD)
  show "case mid_gap_ratio g of
           None \<Rightarrow> appropriate_rate g = None
         | Some m \<Rightarrow> m \<noteq> 0 \<and>
             (\<exists>dv. d = Some dv \<and> appropriate_rate g = Some (dv / m * 100))"
  proof (cases mg)
    case None
    with gap_ratios_InrD(3) [OF gr] g show ?thesis by simp
  next
    case (Some y)
    have y: "y \<noteq> 0" "ar = Some (the d / y * 100)"
      using gap_ratios_InrD(5) [OF gr Some] by blast+
    from gap_ratios_InrD(2) [OF gr] Some have "truthy d" by simp
    then obtain dv where "d = Some dv" by (cases d) (simp_all add: truthy_def)
    with y Some g show ?thesis by simp
  qed
qed

theorem fair_value_division_guarded_witness:
  "calculate_dollar_gap_ratio 1200 (Some [1250, 1350]) (Some 106) (Some [90, 100, 110]) 2
     \<noteq> Inl (ZeroDivisionError 85)
   \<and> calculate_dollar_gap_ratio 1200 (Some [1250, 1350]) (Some 106) (Some [90, 100, 110]) 2
      = Inr (GapDict
       \<lparr>rate_vs_mid = Some (- (100 / 13)), dxy_vs_mid = Some (Finite (20 / 21)),
        current_gap_ratio = Some (53 / 6), mid_gap_ratio = Some (105 / 13),
        appropriate_rate = Some (27560 / 21),
        rate_stats = \<lparr>current = Some 1200, mid = 1300, min_close = 1250, max_close = 1350\<rparr>,
        dxy_stats = Some \<lparr>current = Some 106, mid = 105, min_close = 100, max_close = 110\<rparr>\<rparr>)
   \<and> (105 / 13 :: real) \<noteq> 0
   \<and> (27560 / 21 :: real) = 106 / (105 / 13) * 100"
proof (intro conjI)
  note t = fair_value_division_guarded
    [of 1200 "Some [1250, 1350]" "Some 106" "Some [90, 100, 110]" 2]
  note t2 = t [THEN conjunct2, rule_format, OF example_analysis]
  show "calculate_dollar_gap_ratio 1200 (Some [1250, 1350]) (Some 106)
      (Some [90, 100, 110]) 2 \<noteq> Inl (ZeroDivisionError 85)"
    using t by (rule conjunct1)
  show "calculate_dollar_gap_ratio 1200 (Some [1250, 1350]) (Some 106) (Some [90, 100, 110]) 2
      = Inr (GapDict
       \<lparr>rate_vs_mid = Some (- (100 / 13)), dxy_vs_mid = Some (Finite (20 / 21)),
        current_gap_ratio = Some (53 / 6), mid_gap_ratio = Some (105 / 13),
        appropriate_rate = Some (27560 / 21),
        rate_stats = \<lparr>current = Some 1200, mid = 1300, min_close = 1250, max_close = 1350\<rparr>,
        dxy_stats = Some \<lparr>current = Some 106, mid = 105, min_close = 100, max_close = 110\<rparr>\<rparr>)"
    by (rule example_analysis)
  show "(105 / 13 :: real) \<noteq> 0" using t2 by simp
  show "(27560 / 21 :: real) = 106 / (105 / 13) * 100" using t2 by simp
qed



text \<open>
  C5. For a rate history of positive closes that covers a window of \<open>n > 0\<close> days the
  calculator returns an analysis whose rate statistics are taken over exactly the last \<open>n\<close> closes: minimum
  and maximum bound every close of the window and are attained in it, the midpoint is
  half their sum, the percentage is the current rate minus the midpoint, over the
  midpoint, times 100, and it is negative exactly when the current rate is below the
  midpoint.
\<close>

theorem rate_window_statistics:
  assumes "0 < n" and "n \<le> int (length xs)" and "price_series xs"
  shows "\<exists>g. calculate_dollar_gap_ratio c (Some xs) d dh n = Inr (GapDict g)
    \<and> (\<forall>i. length xs - nat n \<le> i \<and> i < length xs \<longrightarrow>
           min_close (rate_stats g) \<le> xs ! i \<and> xs ! i \<le> max_close (rate_stats g))
    \<and> (\<exists>i. length xs - nat n \<le> i \<and> i < length xs \<and> xs ! i = min_close (rate_stats g))
    \<and> (\<exists>i. length xs - nat n \<le> i \<and> i < length xs \<and> xs ! i = max_close (rate_stats g))
    \<and> mid (rate_stats g) = (min_close (rate_stats g) + max_close (rate_stats g)) / 2
    \<and> current (rate_stats g) = Some c
    \<and> rate_vs_mid g = Some ((c - mid (rate_stats g)) / mid (rate_stats g) * 100)
    \<and> ((c - mid (rate_stats g)) / mid (rate_stats g) * 100 < 0) = (c < mid (rate_stats g))"
proof -
  from calculate_returns [OF assms(1-3), of c d dh]
  obtain g where g: "calculate_dollar_gap_ratio c (Some xs) d dh n = Inr (GapDict g)" by blast
  then obtain xs' lo hi m v dm dvm ds cg mg ar where
    xs': "Some xs = Some xs'"
    and r: "rate_statistics c xs' n = Inr (lo, hi, m, v)"
    and gd: "g = \<lparr>rate_vs_mid = Some v, dxy_vs_mid = dvm, current_gap_ratio = cg,
          mid_gap_ratio = mg, appropriate_rate = ar,
          rate_stats = \<lparr>current = Some c, mid = m, min_close = lo, max_close = hi\<rparr>,
          dxy_stats = ds\<rparr>"
    by (rule calculate_GapDictD)
  from xs' r have r': "rate_statistics c xs n = Inr (lo, hi, m, v)" by simp
  define W where "W = set (tail n xs)"
  note w = rate_window_positive [OF assms(1-3)]
  from rate_statistics_InrD [OF r']
  have lo: "lo = Min W" and hi: "hi = Max W" and m: "m = (lo + hi) / 2"
    and v: "v = (c - m) / m * 100"
    unfolding W_def by blast+
  have W: "W = {xs ! i | i. length xs - nat n \<le> i \<and> i < length xs}"
    unfolding W_def tail_pos [OF assms(1)] by (rule set_drop_nth)
  have fin: "finite W" "W \<noteq> {}" unfolding W_def using w(1) by simp_all
  have bounds: "\<forall>i. length xs - nat n \<le> i \<and> i < length xs \<longrightarrow> lo \<le> xs ! i \<and> xs ! i \<le> hi"
  proof (intro allI impI)
    fix i assume "length xs - nat n \<le> i \<and> i < length xs"
    then have "xs ! i \<in> W" unfolding W by blast
    then show "lo \<le> xs ! i \<and> xs ! i \<le> hi"
      unfolding lo hi using fin(1) by (simp add: Min_le Max_ge)
  qed
  have "lo \<in> W" "hi \<in> W" unfolding lo hi using fin by (simp_all add: Min_in Max_in)
  then have attained:
    "\<exists>i. length xs - nat n \<le> i \<and> i < length xs \<and> xs ! i = lo"
    "\<exists>i. length xs - nat n \<le> i \<and> i < length xs \<and> xs ! i = hi"
    unfolding W by auto
  have "0 < lo" "0 < hi" unfolding lo hi W_def using w(2,3) by simp_all
  then have mpos: "0 < m" unfolding m by simp
  have sign: "((c - m) / m * 100 < 0) = (c < m)"
  proof -
    have h: "\<And>x::real. (x * 100 < 0) = (x < 0)"
      by (simp add: mult_less_0_iff)
    have "((c - m) / m * 100 < 0) = ((c - m) / m < 0)"
      by (rule h)
    also have "\<dots> = (c - m < 0)"
      using mpos by (simp add: divide_less_0_iff)
    also have "\<dots> = (c < m)" by simp
    finally show ?thesis .
  qed
  have sel: "min_close (rate_stats g) = lo" "max_close (rate_stats g) = hi"
    "mid (rate_stats g) = m" "current (rate_stats g) = Some c" "rate_vs_mid g = Some v"
    unfolding gd by simp_all
  show ?thesis
  proof (intro exI [of _ g] conjI)
    show "calculate_dollar_gap_ratio c (Some xs) d dh n = Inr (GapDict g)" by (fact g)
    show "\<forall>i. length xs - nat n \<le> i \<and> i < length xs \<longrightarrow>
           min_close (rate_stats g) \<le> xs ! i \<and> xs ! i \<le> max_close (rate_stats g)"
      unfolding sel by (fact bounds)
    show "\<exists>i. length xs - nat n \<le> i \<and> i < length xs \<and> xs ! i = min_close (rate_stats g)"
      unfolding sel by (fact attained(1))
    show "\<exists>i. length xs - nat n \<le> i \<and> i < length xs \<and> xs ! i = max_close (rate_stats g)"
      unfolding sel by (fact attained(2))
    show "mid (rate_stats g) = (min_close (rate_stats g) + max_close (rate_stats g)) / 2"
      unfolding sel by (fact m)
    show "current (rate_stats g) = Some c" by (fact sel(4))
    show "rate_vs_mid g = Some ((c - mid (rate_stats g)) / mid (rate_stats g) * 100)"
      unfolding sel by (simp only: v)
    show "((c - mid (rate_stats g)) / mid (rate_stats g) * 100 < 0) = (c < mid (rate_stats g))"
      unfolding sel by (fact sign)
  qed
qed

theorem rate_window_statistics_witness:
  "(0::int) < 2 \<and> (2::int) \<le> int (length [1000, 1250, 1350 :: real])
   \<and> price_series [1000, 1250, 1350]
   \<and> calculate_dollar_gap_ratio 1200 (Some [1000, 1250, 1350]) (Some 106)
        (Some [90, 100, 110]) 2
      = Inr (GapDict
       \<lparr>rate_vs_mid = Some (- (100 / 13)), dxy_vs_mid = Some (Finite (20 / 21)),
        current_gap_ratio = Some (53 / 6), mid_gap_ratio = Some (105 / 13),
        appropriate_rate = Some (27560 / 21),
        rate_stats = \<lparr>current = Some 1200, mid = 1300, min_close = 1250, max_close = 1350\<rparr>,
        dxy_stats = Some \<lparr>current = Some 106, mid = 105, min_close = 100, max_close = 110\<rparr>\<rparr>)
   \<and> (\<exists>g. calculate_dollar_gap_ratio 1200 (Some [1000, 1250, 1350]) (Some 106)
             (Some [90, 100, 110]) 2 = Inr (GapDict g)
    \<and> (\<forall>i. length [1000, 1250, 1350 :: real] - nat 2 \<le> i
            \<and> i < length [1000, 1250, 1350 :: real] \<longrightarrow>
           min_close (rate_stats g) \<le> [1000, 1250, 1350] ! i
           \<and> [1000, 1250, 1350] ! i \<le> max_close (rate_stats g))
    \<and> (\<exists>i. length [1000, 1250, 1350 :: real] - nat 2 \<le> i
            \<and> i < length [1000, 1250, 1350 :: real]
            \<and> [1000, 1250, 1350] ! i = min_close (rate_stats g))
    \<and> (\<exists>i. length [1000, 1250, 1350 :: real] - nat 2 \<le> i
            \<and> i < length [1000, 1250, 1350 :: real]
            \<and> [1000, 1250, 1350] ! i = max_close (rate_stats g))
    \<and> mid (rate_stats g) = (min_close (rate_stats g) + max_close (rate_stats g)) / 2
    \<and> current (rate_stats g) = Some 1200
    \<and> rate_vs_mid g = Some ((1200 - mid (rate_stats g)) / mid (rate_stats g) * 100)
    \<and> ((1200 - mid (rate_stats g)) / mid (rate_stats g) * 100 < 0)
        = (1200 < mid (rate_stats g)))"
proof -
  have h: "(0::int) < 2" "(2::int) \<le> int (length [1000, 1250, 1350 :: real])"
    "price_series [1000, 1250, 1350]"
    by (simp_all add: price_series_def)
  have e: "calculate_dollar_gap_ratio 1200 (Some [1000, 1250, 1350]) (Some 106)
        (Some [90, 100, 110]) 2
      = Inr (GapDict
       \<lparr>rate_vs_mid = Some (- (100 / 13)), dxy_vs_mid = Some (Finite (20 / 21)),
        current_gap_ratio = Some (53 / 6), mid_gap_ratio = Some (105 / 13),
        appropriate_rate = Some (27560 / 21),
        rate_stats = \<lparr>current = Some 1200, mid = 1300, min_close = 1250, max_close = 1350\<rparr>,
        dxy_stats = Some \<lparr>current = Some 106, mid = 105, min_close = 100, max_close = 110\<rparr>\<rparr>)"
    by (simp add: calculate_dollar_gap_ratio_def rate_statistics_def dxy_statistics_def
      gap_ratios_def tail_def py_div_def truthy_def np_div_def)
  note t = rate_window_statistics [OF h, of 1200 "Some 106" "Some [90, 100, 110]"]
  from h e t show ?thesis by (intro conjI)
qed




text \<open>
  C7, as amended. For a rate history of positive closes that covers a window of
  \<open>n > 0\<close> days the calculator returns an analysis, not an error, also without index
  data. When the index history is absent or shorter than the window, the index
  statistics, the index-versus-midpoint percentage, the mid gap ratio and the fair rate
  are absent, while the current gap ratio is present exactly when a non-zero current
  index value is given and the current rate is positive (lines 76 to 78 need no
  history). When the current index value is absent, the percentage, both gap ratios and
  the fair rate are absent, the index statistics are present exactly when the index
  history covers the window (lines 62 to 66 and 99 to 104), and the recommendation
  engine evaluates condition 1 alone.
\<close>

theorem index_data_missing:
  assumes "0 < n" and "n \<le> int (length xs)" and "price_series xs"
  shows "((case dh of None \<Rightarrow> True | Some ys \<Rightarrow> int (length ys) < n) \<longrightarrow>
          (\<exists>g. calculate_dollar_gap_ratio c (Some xs) d dh n = Inr (GapDict g)
             \<and> dxy_stats g = None \<and> dxy_vs_mid g = None
             \<and> mid_gap_ratio g = None \<and> appropriate_rate g = None
             \<and> (current_gap_ratio g = None) = (\<not> (truthy d \<and> 0 < c))))
      \<and> (\<exists>g. calculate_dollar_gap_ratio c (Some xs) None dh n = Inr (GapDict g)
             \<and> dxy_vs_mid g = None \<and> current_gap_ratio g = None
             \<and> mid_gap_ratio g = None \<and> appropriate_rate g = None
             \<and> (dxy_stats g = None)
                 = (case dh of None \<Rightarrow> True | Some ys \<Rightarrow> int (length ys) < n)
             \<and> (\<exists>dec expl ev met.
                   get_investment_recommendation (GapDict g) = Inr (dec, expl, [ev], met)
                   \<and> condition_no ev = 1))"
proof (intro conjI impI)
  assume short: "case dh of None \<Rightarrow> True | Some ys \<Rightarrow> int (length ys) < n"
  note dx0 = dxy_statistics_short [OF short, of d]
  from calculate_returns_if [OF assms dx0, of c]
  obtain g where g: "calculate_dollar_gap_ratio c (Some xs) d dh n = Inr (GapDict g)"
    by blast
  then obtain xs' lo hi m v dm dvm ds cg mg ar where
    dx: "dxy_statistics d dh n = Inr (dm, dvm, ds)"
    and gr: "gap_ratios c d dm m = Inr (cg, mg, ar)"
    and gd: "g = \<lparr>rate_vs_mid = Some v, dxy_vs_mid = dvm, current_gap_ratio = cg,
          mid_gap_ratio = mg, appropriate_rate = ar,
          rate_stats = \<lparr>current = Some c, mid = m, min_close = lo, max_close = hi\<rparr>,
          dxy_stats = ds\<rparr>"
    by (rule calculate_GapDictD)
  from dx dx0 have n: "dm = None" "dvm = None" "ds = None" by simp_all
  have "\<not> truthy dm" unfolding n by (simp add: truthy_def)
  with gap_ratios_InrD(1,2,3) [OF gr]
  have "mg = None" "ar = None" "(cg = None) = (\<not> (truthy d \<and> 0 < c))" by simp_all
  with n g gd
  show "\<exists>g. calculate_dollar_gap_ratio c (Some xs) d dh n = Inr (GapDict g)
             \<and> dxy_stats g = None \<and> dxy_vs_mid g = None
             \<and> mid_gap_ratio g = None \<and> appropriate_rate g = None
             \<and> (current_gap_ratio g = None) = (\<not> (truthy d \<and> 0 < c))"
    by simp
next
  have nt: "\<not> truthy None" by (simp add: truthy_def)
  from calculate_returns [OF assms, of c None dh]
  obtain g where g: "calculate_dollar_gap_ratio c (Some xs) None dh n = Inr (GapDict g)"
    by blast
  then obtain xs' lo hi m v dm dvm ds cg mg ar where
    dx: "dxy_statistics None dh n = Inr (dm, dvm, ds)"
    and gr: "gap_ratios c None dm m = Inr (cg, mg, ar)"
    and gd: "g = \<lparr>rate_vs_mid = Some v, dxy_vs_mid = dvm, current_gap_ratio = cg,
          mid_gap_ratio = mg, appropriate_rate = ar,
          rate_stats = \<lparr>current = Some c, mid = m, min_close = lo, max_close = hi\<rparr>,
          dxy_stats = ds\<rparr>"
    by (rule calculate_GapDictD)
  from dxy_statistics_InrD(1,2,3) [OF dx] nt
  have ds: "(ds = None) = (case dh of None \<Rightarrow> True | Some ys \<Rightarrow> int (length ys) < n)"
    and dvm: "dvm = None" by simp_all
  from gap_ratios_InrD(1,2,3) [OF gr] nt have z: "cg = None" "mg = None" "ar = None"
    by simp_all
  have sel: "rate_vs_mid g = Some v" "dxy_vs_mid g = None" "current_gap_ratio g = None"
    "mid_gap_ratio g = None" "appropriate_rate g = None" "dxy_stats g = ds"
    unfolding gd dvm z by simp_all
  note rec = recommendation_rate_only [OF sel(1,2,3,5)]
  show "\<exists>g. calculate_dollar_gap_ratio c (Some xs) None dh n = Inr (GapDict g)
             \<and> dxy_vs_mid g = None \<and> current_gap_ratio g = None
             \<and> mid_gap_ratio g = None \<and> appropriate_rate g = None
             \<and> (dxy_stats g = None)
                 = (case dh of None \<Rightarrow> True | Some ys \<Rightarrow> int (length ys) < n)
             \<and> (\<exists>dec expl ev met.
                   get_investment_recommendation (GapDict g) = Inr (dec, expl, [ev], met)
                   \<and> condition_no ev = 1)"
  proof (intro exI [of _ g] conjI)
    show "calculate_dollar_gap_ratio c (Some xs) None dh n = Inr (GapDict g)" by (fact g)
    show "(dxy_stats g = None)
        = (case dh of None \<Rightarrow> True | Some ys \<Rightarrow> int (length ys) < n)"
      unfolding sel(6) by (fact ds)
  qed (fact sel rec)+
qed

theorem index_data_missing_witness:
  "(0::int) < 2 \<and> (2::int) \<le> int (length [1250, 1350 :: real]) \<and> price_series [1250, 1350]
   \<and> int (length [100 :: real]) < 2
   \<and> (\<exists>g. calculate_dollar_gap_ratio 1300 (Some [1250, 1350]) (Some 100) (Some [100]) 2
            = Inr (GapDict g)
          \<and> dxy_stats g = None \<and> dxy_vs_mid g = None
          \<and> mid_gap_ratio g = None \<and> appropriate_rate g = None
          \<and> (current_gap_ratio g = None) = (\<not> (truthy (Some 100) \<and> (0::real) < 1300)))
   \<and> (\<exists>g. calculate_dollar_gap_ratio 1300 (Some [1250, 1350]) None (Some [100]) 2
            = Inr (GapDict g)
          \<and> dxy_vs_mid g = None \<and> current_gap_ratio g = None
          \<and> mid_gap_ratio g = None \<and> appropriate_rate g = None
          \<and> (dxy_stats g = None) = (int (length [100 :: real]) < 2)
          \<and> (\<exists>dec expl ev met.
                get_investment_recommendation (GapDict g) = Inr (dec, expl, [ev], met)
                \<and> condition_no ev = 1))"
proof -
  have h: "(0::int) < 2" "(2::int) \<le> int (length [1250, 1350 :: real])"
    "price_series [1250, 1350]"
    by (simp_all add: price_series_def)
  have s: "int (length [100 :: real]) < 2" by simp
  then have s': "case Some [100 :: real] of None \<Rightarrow> True | Some ys \<Rightarrow> int (length ys) < 2"
    by simp
  note t = index_data_missing [OF h, of "Some [100]" 1300 "Some 100"]
  note t1 = t [THEN conjunct1, THEN mp, OF s']
  note t2 = t [THEN conjunct2, unfolded option.case]
  from h s t1 t2 show ?thesis by (intro conjI)
qed

theorem index_data_missing_counterexample:
  "calculate_dollar_gap_ratio 1300 (Some [1250, 1350]) (Some 100) (Some [100]) 2
    = Inr (GapDict
       \<lparr>rate_vs_mid = Some 0, dxy_vs_mid = None,
        current_gap_ratio = Some (100 / 13), mid_gap_ratio = None, appropriate_rate = None,
        rate_stats = \<lparr>current = Some 1300, mid = 1300, min_close = 1250, max_close = 1350\<rparr>,
        dxy_stats = None\<rparr>)
   \<and> calculate_dollar_gap_ratio 1300 (Some [1250, 1350]) None (Some [90, 100, 110]) 2
    = Inr (GapDict
       \<lparr>rate_vs_mid = Some 0, dxy_vs_mid = None,
        current_gap_ratio = None, mid_gap_ratio = None, appropriate_rate = None,
        rate_stats = \<lparr>current = Some 1300, mid = 1300, min_close = 1250, max_close = 1350\<rparr>,
        dxy_stats = Some \<lparr>current = None, mid = 105, min_close = 100, max_close = 110\<rparr>\<rparr>)"
  by (simp add: calculate_dollar_gap_ratio_def rate_statistics_def dxy_statistics_def
      gap_ratios_def tail_def py_div_def truthy_def np_div_def)

text \<open>
  C9. For a positive amount and a positive rate the sizing calculation charges a fee
  of 0.002 times the amount, the net amount is the amount minus the fee, the gross
  and net quantities are the amount and the net amount over the rate, and the scenario
  table has one row for each of -5, -3, -1, 0, 1, 3, 5 per cent, in this order, with the
  projected rate, the net amount over it, and the difference to the net quantity valued
  at the original rate. The row for 0 per cent has the original rate and a profit of
  exactly 0.
\<close>

theorem sizing_and_scenarios:
  assumes "0 < a" and "0 < r"
  shows "\<exists>det rows. calculate_investment_details a (Some r) = Inr (Some det)
     \<and> fee det = a * 0.002 \<and> net_investment det = a - fee det
     \<and> dollar_amount det = a / r \<and> net_dollar det = net_investment det / r
     \<and> scenario_data r det = Inr rows
     \<and> map change_pct rows = [-5, -3, -1, 0, 1, 3, 5]
     \<and> list_all (\<lambda>row. new_rate row = r * (1 + real_of_int (change_pct row) / 100)
                    \<and> new_dollar row = net_investment det / new_rate row
                    \<and> profit_loss row = (new_dollar row - net_dollar det) * r) rows
     \<and> new_rate (rows ! 3) = r \<and> profit_loss (rows ! 3) = 0"
proof -
  define det where "det = \<lparr>investment_amount = a, current_rate = r, dollar_amount = a / r,
               fee = a * 0.002, net_investment = a - a * 0.002,
               net_dollar = (a - a * 0.002) / r, fee_rate = 0.002 * 100\<rparr>"
  define row where "row = (\<lambda>p. \<lparr>change_pct = p,
                    new_rate = r * (1 + real_of_int p / 100),
                    new_dollar = net_investment det / (r * (1 + real_of_int p / 100)),
                    profit_loss = (net_investment det / (r * (1 + real_of_int p / 100))
                                    - net_dollar det) * r\<rparr>)"
  define rows where "rows = map row scenarios"
  from assms(2) have "r \<noteq> 0" by simp
  from calculate_investment_details_Some [OF this, of a]
  have c: "calculate_investment_details a (Some r) = Inr (Some det)"
    unfolding det_def .
  have sel: "fee det = a * 0.002" "net_investment det = a - fee det"
    "dollar_amount det = a / r" "net_dollar det = net_investment det / r"
    unfolding det_def by simp_all
  have "list_all (\<lambda>p. - 100 < p) scenarios" by (simp add: scenarios_def)
  from scenario_loop_rows [OF assms(2) this, of det]
  have s: "scenario_data r det = Inr rows"
    unfolding scenario_data_def rows_def row_def .
  have pcts: "map change_pct rows = [-5, -3, -1, 0, 1, 3, 5]"
    unfolding rows_def row_def scenarios_def by simp
  have each: "list_all (\<lambda>row. new_rate row = r * (1 + real_of_int (change_pct row) / 100)
                    \<and> new_dollar row = net_investment det / new_rate row
                    \<and> profit_loss row = (new_dollar row - net_dollar det) * r) rows"
    unfolding rows_def row_def by (simp add: list_all_iff)
  have r3: "rows ! 3 = row 0" unfolding rows_def scenarios_def by simp
  have z: "new_rate (row 0) = r" "profit_loss (row 0) = 0"
    unfolding row_def sel(4) by simp_all
  have z3: "new_rate (rows ! 3) = r" "profit_loss (rows ! 3) = 0"
    unfolding r3 by (fact z)+
  show ?thesis
    by (intro exI [of _ det] exI [of _ rows] conjI) (fact c sel s pcts each z3)+
qed

theorem sizing_and_scenarios_witness:
  "(0::real) < 1000000 \<and> (0::real) < 1300
   \<and> calculate_investment_details 1000000 (Some 1300) =
       Inr (Some \<lparr>investment_amount = 1000000, current_rate = 1300,
                  dollar_amount = 1000000 / 1300, fee = 2000, net_investment = 998000,
                  net_dollar = 998000 / 1300, fee_rate = 0.2\<rparr>)
   \<and> (\<exists>det rows. calculate_investment_details 1000000 (Some 1300) = Inr (Some det)
     \<and> fee det = 1000000 * 0.002 \<and> net_investment det = 1000000 - fee det
     \<and> dollar_amount det = 1000000 / 1300 \<and> net_dollar det = net_investment det / 1300
     \<and> scenario_data 1300 det = Inr rows
     \<and> map change_pct rows = [-5, -3, -1, 0, 1, 3, 5]
     \<and> list_all (\<lambda>row. new_rate row = 1300 * (1 + real_of_int (change_pct row) / 100)
                    \<and> new_dollar row = net_investment det / new_rate row
                    \<and> profit_loss row = (new_dollar row - net_dollar det) * 1300) rows
     \<and> new_rate (rows ! 3) = 1300 \<and> profit_loss (rows ! 3) = 0)"
proof -
  have h: "(0::real) < 1000000" "(0::real) < 1300" by simp_all
  have e: "calculate_investment_details 1000000 (Some 1300) =
       Inr (Some \<lparr>investment_amount = 1000000, current_rate = 1300,
                  dollar_amount = 1000000 / 1300, fee = 2000, net_investment = 998000,
                  net_dollar = 998000 / 1300, fee_rate = 0.2\<rparr>)"
    by (simp add: calculate_investment_details_def py_div_def)
  note t = sizing_and_scenarios [OF h]
  from h e t show ?thesis by (intro conjI)
qed

text \<open>
  C10. A current index value of exactly zero is treated as missing: with both histories
  covering the window, positive rate closes and a positive current rate, the calculator
  returns an analysis without index-versus-midpoint percentage, gap ratios and fair rate.
\<close>

theorem zero_index_is_missing:
  assumes "0 < n" and "n \<le> int (length xs)" and "n \<le> int (length ys)"
    and "price_series xs" and "0 < c"
  shows "\<exists>g. calculate_dollar_gap_ratio c (Some xs) (Some 0) (Some ys) n = Inr (GapDict g)
     \<and> dxy_vs_mid g = None \<and> current_gap_ratio g = None
     \<and> mid_gap_ratio g = None \<and> appropriate_rate g = None"
proof -
  have nt: "\<not> truthy (Some 0)" by (simp add: truthy_def)
  from calculate_returns [OF assms(1,2,4), of c "Some 0" "Some ys"]
  obtain g where g: "calculate_dollar_gap_ratio c (Some xs) (Some 0) (Some ys) n = Inr (GapDict g)"
    by blast
  then obtain xs' lo hi m v dm dvm ds cg mg ar where
    dx: "dxy_statistics (Some 0) (Some ys) n = Inr (dm, dvm, ds)"
    and gr: "gap_ratios c (Some 0) dm m = Inr (cg, mg, ar)"
    and gd: "g = \<lparr>rate_vs_mid = Some v, dxy_vs_mid = dvm, current_gap_ratio = cg,
          mid_gap_ratio = mg, appropriate_rate = ar,
          rate_stats = \<lparr>current = Some c, mid = m, min_close = lo, max_close = hi\<rparr>,
          dxy_stats = ds\<rparr>"
    by (rule calculate_GapDictD)
  from dxy_statistics_InrD(3) [OF dx] nt have "dvm = None" by simp
  moreover from gap_ratios_InrD(1,2,3) [OF gr] nt have "cg = None" "mg = None" "ar = None"
    by simp_all
  ultimately show ?thesis using g gd by simp
qed

theorem zero_index_is_missing_witness:
  "calculate_dollar_gap_ratio 1300 (Some [1250, 1350]) (Some 0) (Some [90, 100, 110]) 2
    = Inr (GapDict
       \<lparr>rate_vs_mid = Some 0, dxy_vs_mid = None,
        current_gap_ratio = None, mid_gap_ratio = None, appropriate_rate = None,
        rate_stats = \<lparr>current = Some 1300, mid = 1300, min_close = 1250, max_close = 1350\<rparr>,
        dxy_stats = Some \<lparr>current = Some 0, mid = 105, min_close = 100, max_close = 110\<rparr>\<rparr>)"
proof -
  have h: "(0::int) < 2" "(2::int) \<le> int (length [1250, 1350 :: real])"
    "(2::int) \<le> int (length [90, 100, 110 :: real])" "price_series [1250, 1350]"
    "(0::real) < 1300"
    by (simp_all add: price_series_def)
  from zero_index_is_missing [OF h]
  obtain g where g: "calculate_dollar_gap_ratio 1300 (Some [1250, 1350]) (Some 0)
        (Some [90, 100, 110]) 2 = Inr (GapDict g)"
    and a: "dxy_vs_mid g = None" "current_gap_ratio g = None"
      "mid_gap_ratio g = None" "appropriate_rate g = None"
    by blast
  have r: "rate_statistics 1300 [1250, 1350] 2 = Inr (1250, 1350, 1300, 0)"
    by (simp add: rate_statistics_def tail_def py_div_def)
  have dx: "dxy_statistics (Some 0) (Some [90, 100, 110]) 2
     = Inr (Some 105, None, Some \<lparr>current = Some 0, mid = 105, min_close = 100, max_close = 110\<rparr>)"
    by (simp add: dxy_statistics_def tail_def py_div_def truthy_def)
  from g obtain xs' lo hi m v dm dvm ds cg mg ar where
    "rate_statistics 1300 xs' 2 = Inr (lo, hi, m, v)" "Some [1250, 1350] = Some xs'"
    "dxy_statistics (Some 0) (Some [90, 100, 110]) 2 = Inr (dm, dvm, ds)"
    and gd: "g = \<lparr>rate_vs_mid = Some v, dxy_vs_mid = dvm, current_gap_ratio = cg,
          mid_gap_ratio = mg, appropriate_rate = ar,
          rate_stats = \<lparr>current = Some 1300, mid = m, min_close = lo, max_close = hi\<rparr>,
          dxy_stats = ds\<rparr>"
    by (rule calculate_GapDictD)
  with r dx have "lo = 1250" "hi = 1350" "m = 1300" "v = 0" "dvm = None"
    "ds = Some \<lparr>current = Some 0, mid = 105, min_close = 100, max_close = 110\<rparr>"
    by simp_all
  with gd a g show ?thesis by simp
qed

end
